theory Spec2Isabelle
  imports Complex_Main
begin

section \<open>Python values\<close>

text \<open>
  A Python \<open>str\<close> is a sequence of Unicode code points, so it is modelled as a list of
  natural numbers. \<open>ascii\<close> embeds a HOL string literal (all the string constants of the
  source but the naira sign are ASCII).
\<close>

type_synonym pystr = "nat list"

definition ascii :: "string \<Rightarrow> pystr" where
  "ascii s = map of_char s"

text \<open>
  The Unicode character database is Python's, not the repository's. Its ASCII part is
  written out below; the part above code point 127 is a parameter of the model:
  which characters \<open>str.isspace\<close> accepts, how \<open>str.isdigit\<close> and \<open>float\<close> class a
  character, and what \<open>str.lower\<close> maps it to (given the text before and after it, as
  the final sigma needs).
\<close>

datatype digit_kind = NotDigit | Decimal nat | OtherDigit

record unicode_db =
  u_isspace :: "nat \<Rightarrow> bool"
  u_digit :: "nat \<Rightarrow> digit_kind"
  u_lower :: "pystr \<Rightarrow> pystr \<Rightarrow> nat \<Rightarrow> pystr"

text \<open>
  A float is modelled by the number it stands for: a finite float by a rational (the
  rounding to binary64, and with it the overflow of a huge numeral to infinity, is left
  out), and the three special values by constructors.
\<close>

datatype pyfloat = Fin rat | PosInf | NegInf | NaN

text \<open>
  The values that reach the two components: what \<open>json.loads\<close> can return (\<open>None\<close>, \<open>bool\<close>,
  \<open>int\<close>, \<open>float\<close>, \<open>str\<close>, \<open>list\<close>, \<open>dict\<close> with string keys), the numeric-library scalars
  and arrays the progress encoder names, and any other object (\<open>VObject\<close>: no special
  equality, not a number, unknown to the JSON encoder). \<open>NpFloat64\<close> is apart from the other
  numeric-library floats because \<open>numpy.float64\<close> is a subclass of the built-in \<open>float\<close>
  and they are not. An array is given by what its \<open>tolist()\<close> returns. A dict is an
  association list in insertion order.
\<close>

datatype pyval =
    VNone
  | VBool bool
  | VInt int
  | VFloat pyfloat
  | VStr pystr
  | VList "pyval list"
  | VDict "(pystr \<times> pyval) list"
  | NpInteger int
  | NpFloat64 pyfloat
  | NpFloating pyfloat
  | NpBool bool
  | NpArray "pyval list"
  | VObject nat

type_synonym pydict = "(pystr \<times> pyval) list"

text \<open>Exceptions (instances of \<open>Exception\<close>): the class and what \<open>str(e)\<close> returns.\<close>

datatype exn_class =
    ValueError | TypeError | AttributeError | JSONDecodeError | OtherException pystr

datatype pyerror = PyError exn_class pystr

fun str_of_error :: "pyerror \<Rightarrow> pystr" where
  "str_of_error (PyError c m) = m"

subsection \<open>Dictionary operations\<close>

definition dict_get :: "pydict \<Rightarrow> pystr \<Rightarrow> pyval \<Rightarrow> pyval" where
  "dict_get d k dflt = (case map_of d k of None \<Rightarrow> dflt | Some v \<Rightarrow> v)"

definition dict_has :: "pydict \<Rightarrow> pystr \<Rightarrow> bool" where
  "dict_has d k = (map_of d k \<noteq> None)"

fun dict_set :: "('k \<times> 'v) list \<Rightarrow> 'k \<Rightarrow> 'v \<Rightarrow> ('k \<times> 'v) list" where
  "dict_set [] k v = [(k, v)]"
| "dict_set ((k', v') # d) k v =
     (if k' = k then (k, v) # d else (k', v') # dict_set d k v)"

subsection \<open>String operations\<close>

definition isspace :: "unicode_db \<Rightarrow> nat \<Rightarrow> bool" where
  "isspace u c =
     (if c < 128 then (9 \<le> c \<and> c \<le> 13) \<or> (28 \<le> c \<and> c \<le> 32) else u_isspace u c)"

definition lstrip :: "unicode_db \<Rightarrow> pystr \<Rightarrow> pystr" where
  "lstrip u s = dropWhile (isspace u) s"

definition rstrip :: "unicode_db \<Rightarrow> pystr \<Rightarrow> pystr" where
  "rstrip u s = rev (dropWhile (isspace u) (rev s))"

definition strip :: "unicode_db \<Rightarrow> pystr \<Rightarrow> pystr" where
  "strip u s = rstrip u (lstrip u s)"

definition startswith :: "pystr \<Rightarrow> pystr \<Rightarrow> bool" where
  "startswith s p = (take (length p) s = p)"

definition endswith :: "pystr \<Rightarrow> pystr \<Rightarrow> bool" where
  "endswith s p = (length p \<le> length s \<and> drop (length s - length p) s = p)"

fun contains :: "pystr \<Rightarrow> pystr \<Rightarrow> bool" where
  "contains [] p = (p = [])"
| "contains (c # cs) p = (startswith (c # cs) p \<or> contains cs p)"

fun lower_from :: "unicode_db \<Rightarrow> pystr \<Rightarrow> pystr \<Rightarrow> pystr" where
  "lower_from u seen [] = []"
| "lower_from u seen (c # cs) =
     (if c < 128 then [if 65 \<le> c \<and> c \<le> 90 then c + 32 else c]
      else u_lower u seen cs c) @ lower_from u (seen @ [c]) cs"

definition lower :: "unicode_db \<Rightarrow> pystr \<Rightarrow> pystr" where
  "lower u s = lower_from u [] s"

definition isdigit :: "unicode_db \<Rightarrow> nat \<Rightarrow> bool" where
  "isdigit u c = (if c < 128 then 48 \<le> c \<and> c \<le> 57 else u_digit u c \<noteq> NotDigit)"

text \<open>
  \<open>float(s)\<close> for the strings line 95 passes to it, which hold digits and full stops
  only: one or more decimal digits with at most one full stop among them. A digit that
  is no decimal digit (a superscript two), a second full stop or no digit at all is a
  \<open>ValueError\<close>.
\<close>

definition decimal_value :: "unicode_db \<Rightarrow> nat \<Rightarrow> nat option" where
  "decimal_value u c =
     (if c < 128 then (if 48 \<le> c \<and> c \<le> 57 then Some (c - 48) else None)
      else (case u_digit u c of Decimal d \<Rightarrow> Some d | _ \<Rightarrow> None))"

fun digits_value :: "unicode_db \<Rightarrow> nat \<Rightarrow> pystr \<Rightarrow> nat option" where
  "digits_value u acc [] = Some acc"
| "digits_value u acc (c # cs) =
     (case decimal_value u c of
        None \<Rightarrow> None
      | Some d \<Rightarrow> digits_value u (10 * acc + d) cs)"

definition float_error :: "pystr \<Rightarrow> pyerror" where
  "float_error s = PyError ValueError (ascii ''could not convert string to float: '' @ s)"

definition float_of_digits :: "unicode_db \<Rightarrow> pystr \<Rightarrow> pyerror + pyfloat" where
  "float_of_digits u s =
     (let ip = takeWhile (\<lambda>c. c \<noteq> 46) s;
          fp = drop 1 (dropWhile (\<lambda>c. c \<noteq> 46) s)
      in if ip = [] \<and> fp = [] then Inl (float_error s)
         else (case (digits_value u 0 ip, digits_value u 0 fp) of
                 (Some n, Some m) \<Rightarrow> Inr (Fin (of_nat n + of_nat m / 10 ^ length fp))
               | _ \<Rightarrow> Inl (float_error s)))"

section \<open>VisionAgent\<close>

text \<open>
  The agent holds \<open>model_name\<close> and \<open>model\<close>; a model handle is identified by the name it
  was built with. \<open>genai.configure\<close> and \<open>genai.GenerativeModel\<close> only record their
  argument: neither talks to the service.
\<close>

record agent =
  model_name :: pystr
  model :: pystr

definition primary_model :: pystr where
  "primary_model = ascii ''models/gemini-2.5-flash''"

definition secondary_model :: pystr where
  "secondary_model = ascii ''models/gemini-2.5-pro''"

text \<open>\<open>VisionAgent.__init__\<close>; the key is \<open>None\<close> or a string.\<close>

definition init :: "pystr option \<Rightarrow> pyerror + agent" where
  "init api_key =
     (if api_key = None \<or> api_key = Some []
      then Inl (PyError ValueError (ascii ''GEMINI_API_KEY is required''))
      else Inr \<lparr>model_name = primary_model, model = primary_model\<rparr>)"

subsection \<open>The collaborators of \<open>analyze\<close>\<close>

text \<open>
  A call of \<open>progress.emit\<close>: the keyword arguments. The message of the second call is an
  f-string, kept as its parts (\<open>Fmt v\<close> is the formatted value \<open>v\<close>).
\<close>

datatype fmt = Lit pystr | Fmt pyval

record emit_call =
  e_agent :: pystr
  e_stage :: pystr
  e_message :: "fmt list"
  e_progress :: int
  e_details :: "pydict option"

text \<open>
  The progress collaborator is any object with an \<open>emit\<close> method: it returns or raises.
  \<open>None\<close> stands for an absent (or falsy) collaborator.
\<close>

type_synonym collaborator = "emit_call \<Rightarrow> pyerror option"

text \<open>The response of the remote model: reading \<open>response.text\<close> gives a string or raises.\<close>

datatype response = Response "pyerror + pystr"

text \<open>
  The world around one call of \<open>analyze\<close>: the Unicode tables, \<open>Image.open\<close> (it raises or
  returns an image, which is only passed on), the remote model (its answer to the first
  and to the second submission of the call, by model name) and \<open>json.loads\<close>.
\<close>

record env =
  unicode :: unicode_db
  open_image :: "pystr \<Rightarrow> pyerror option"
  generate :: "nat \<Rightarrow> pystr \<Rightarrow> pyerror + response"
  loads :: "pystr \<Rightarrow> pyerror + pyval"

text \<open>What a call does to the outside, in order.\<close>

datatype event = Emitted emit_call | Submitted pystr

type_synonym state = "agent \<times> event list"

subsection \<open>Field names and the default record\<close>

definition k_merchant_name :: pystr where
  "k_merchant_name = ascii ''merchant_name''"

definition k_total_amount :: pystr where
  "k_total_amount = ascii ''total_amount''"

definition k_currency :: pystr where
  "k_currency = ascii ''currency''"

definition k_date :: pystr where
  "k_date = ascii ''date''"

definition k_transaction_id :: pystr where
  "k_transaction_id = ascii ''transaction_id''"

definition k_ocr_text :: pystr where
  "k_ocr_text = ascii ''ocr_text''"

definition k_confidence :: pystr where
  "k_confidence = ascii ''confidence''"

definition k_visual_anomalies :: pystr where
  "k_visual_anomalies = ascii ''visual_anomalies''"

definition k_error :: pystr where
  "k_error = ascii ''error''"

definition naira :: pystr where
  "naira = [8358]"

definition default_result :: pydict where
  "default_result =
     [(k_merchant_name, VStr (ascii ''Unknown Merchant'')),
      (k_total_amount, VFloat (Fin 0)),
      (k_currency, VStr naira),
      (k_date, VStr []),
      (k_transaction_id, VStr []),
      (k_ocr_text, VStr (ascii ''OCR extraction unavailable - Gemini API error'')),
      (k_confidence, VInt 0),
      (k_visual_anomalies, VList []),
      (k_error, VStr (ascii ''Gemini API unavailable - check GEMINI_API_KEY and model access''))]"

subsection \<open>\<open>analyze\<close>, step by step\<close>

definition emit_opt ::
  "collaborator option \<Rightarrow> emit_call \<Rightarrow> event list \<Rightarrow> event list \<times> pyerror option" where
  "emit_opt progress c tr =
     (case progress of
        None \<Rightarrow> (tr, None)
      | Some p \<Rightarrow> (tr @ [Emitted c], p c))"

definition started_call :: emit_call where
  "started_call =
     \<lparr>e_agent = ascii ''vision'', e_stage = ascii ''ocr_started'',
      e_message = [Lit ([129302] @ ascii '' Gemini Vision analyzing receipt structure...'')],
      e_progress = 10, e_details = None\<rparr>"

definition complete_call :: "pydict \<Rightarrow> emit_call" where
  "complete_call data =
     \<lparr>e_agent = ascii ''vision'', e_stage = ascii ''ocr_complete'',
      e_message =
        [Lit (ascii ''Extracted: ''),
         Fmt (dict_get data k_merchant_name (VStr (ascii ''Unknown''))),
         Lit (ascii '' - ''),
         Fmt (dict_get data k_currency (VStr naira)),
         Fmt (dict_get data k_total_amount (VInt 0))],
      e_progress = 30,
      e_details = Some
        [(ascii ''merchant'', dict_get data k_merchant_name VNone),
         (ascii ''amount'', dict_get data k_total_amount VNone),
         (ascii ''confidence'', dict_get data k_confidence VNone)]\<rparr>"

text \<open>Line 70: the test that sends a failed call to the second model.\<close>

definition is_not_found :: "unicode_db \<Rightarrow> pyerror \<Rightarrow> bool" where
  "is_not_found u e =
     (contains (str_of_error e) (ascii ''404'')
      \<or> contains (lower u (str_of_error e)) (ascii ''not found''))"

definition unavailable_error :: pyerror where
  "unavailable_error =
     PyError ValueError
       (ascii ''Gemini API unavailable. Please verify your GEMINI_API_KEY has model access.'')"

text \<open>Lines 67 to 79: the call of the model, with the fallback.\<close>

definition call_model :: "env \<Rightarrow> state \<Rightarrow> state \<times> (pyerror + response)" where
  "call_model E s =
     (case s of (a, tr) \<Rightarrow>
        (let tr1 = tr @ [Submitted (model a)] in
         case generate E 0 (model a) of
           Inr r \<Rightarrow> ((a, tr1), Inr r)
         | Inl model_error \<Rightarrow>
             if is_not_found (unicode E) model_error then
               (let a' = a\<lparr>model := secondary_model\<rparr>;
                    tr2 = tr1 @ [Submitted secondary_model]
                in case generate E 1 secondary_model of
                     Inr r \<Rightarrow> ((a', tr2), Inr r)
                   | Inl second_error \<Rightarrow> ((a', tr2), Inl unavailable_error))
             else ((a, tr1), Inl model_error)))"

text \<open>Lines 82 to 86 and the \<open>strip\<close> of line 88: the text handed to \<open>json.loads\<close>.\<close>

definition clean_response :: "unicode_db \<Rightarrow> pystr \<Rightarrow> pystr" where
  "clean_response u text =
     (let raw1 = strip u text;
          raw2 = (if startswith raw1 (ascii ''```json'') then drop 7 raw1 else raw1);
          raw3 = (if endswith raw2 (ascii ''```'') then take (length raw2 - 3) raw2 else raw2)
      in strip u raw3)"

text \<open>
  Lines 91 to 95. \<open>data.get\<close> exists on a dict only: on any other parsed value the
  attribute lookup raises.
\<close>

definition no_get_error :: pyerror where
  "no_get_error = PyError AttributeError (ascii ''object has no attribute get'')"

definition clean_amount :: "unicode_db \<Rightarrow> pystr \<Rightarrow> pystr" where
  "clean_amount u amount = filter (\<lambda>c. isdigit u c \<or> c = 46) amount"

definition sanitize_amount :: "unicode_db \<Rightarrow> pyval \<Rightarrow> pyerror + pydict" where
  "sanitize_amount u data =
     (case data of
        VDict d \<Rightarrow>
          (case dict_get d k_total_amount (VInt 0) of
             VStr amount \<Rightarrow>
               (if clean_amount u amount \<noteq> [] then
                  (case float_of_digits u (clean_amount u amount) of
                     Inl e \<Rightarrow> Inl e
                   | Inr f \<Rightarrow> Inr (dict_set d k_total_amount (VFloat f)))
                else Inr (dict_set d k_total_amount (VFloat (Fin 0))))
           | _ \<Rightarrow> Inr d)
      | _ \<Rightarrow> Inl no_get_error)"

text \<open>Lines 98 and 99.\<close>

definition ensure_confidence :: "pydict \<Rightarrow> pydict" where
  "ensure_confidence d =
     (if \<not> dict_has d k_confidence then dict_set d k_confidence (VInt 85) else d)"

text \<open>The body of the \<open>try\<close> (lines 37 to 115): the new state, and the record or the exception.\<close>

definition analyze_try ::
  "env \<Rightarrow> collaborator option \<Rightarrow> pystr \<Rightarrow> state \<Rightarrow> state \<times> (pyerror + pydict)" where
  "analyze_try E progress image_path s =
     (case s of (a, tr) \<Rightarrow>
      (case emit_opt progress started_call tr of
         (tr1, Some e) \<Rightarrow> ((a, tr1), Inl e)
       | (tr1, None) \<Rightarrow>
      (case open_image E image_path of
         Some e \<Rightarrow> ((a, tr1), Inl e)
       | None \<Rightarrow>
      (case call_model E (a, tr1) of
         (s2, Inl e) \<Rightarrow> (s2, Inl e)
       | ((a2, tr2), Inr (Response txt)) \<Rightarrow>
      (case txt of
         Inl e \<Rightarrow> ((a2, tr2), Inl e)
       | Inr raw_text \<Rightarrow>
      (case loads E (clean_response (unicode E) raw_text) of
         Inl e \<Rightarrow> ((a2, tr2), Inl e)
       | Inr parsed \<Rightarrow>
      (case sanitize_amount (unicode E) parsed of
         Inl e \<Rightarrow> ((a2, tr2), Inl e)
       | Inr d \<Rightarrow>
      (let data = ensure_confidence d in
       case emit_opt progress (complete_call data) tr2 of
         (tr3, Some e) \<Rightarrow> ((a2, tr3), Inl e)
       | (tr3, None) \<Rightarrow> ((a2, tr3), Inr data)))))))))"

text \<open>
  \<open>analyze\<close>: the body under the handler of line 117, which turns every exception into
  the default record. The result type still has room for an exception: that none comes
  out is a theorem, not a choice of type.
\<close>

definition analyze ::
  "env \<Rightarrow> collaborator option \<Rightarrow> pystr \<Rightarrow> state \<Rightarrow> state \<times> (pyerror + pydict)" where
  "analyze E progress image_path s =
     (case analyze_try E progress image_path s of
        (s', Inr data) \<Rightarrow> (s', Inr data)
      | (s', Inl e) \<Rightarrow> (s', Inr default_result))"

section \<open>ProgressEmitter\<close>

subsection \<open>\<open>json.dumps\<close> with \<open>NumpyJsonEncoder\<close>\<close>

text \<open>
  The text \<open>json.dumps\<close> returns is kept as its tree of tokens. A finite float is written
  as its \<open>repr\<close>, an integer in decimal; \<open>NaN\<close>, \<open>Infinity\<close> and \<open>-Infinity\<close> are the three
  tokens the encoder writes (\<open>allow_nan\<close> is left at its default) that are no JSON.
\<close>

datatype json_text =
    TNull
  | TTrue
  | TFalse
  | TInt int
  | TFloat rat
  | TNaN
  | TInfinity
  | TNegInfinity
  | TString pystr
  | TArray "json_text list"
  | TObject "(pystr \<times> json_text) list"

fun valid_json :: "json_text \<Rightarrow> bool" where
  "valid_json TNaN = False"
| "valid_json TInfinity = False"
| "valid_json TNegInfinity = False"
| "valid_json (TArray xs) = list_all valid_json xs"
| "valid_json (TObject kvs) = list_all (\<lambda>kv. valid_json (snd kv)) kvs"
| "valid_json t = True"

fun floatstr :: "pyfloat \<Rightarrow> json_text" where
  "floatstr NaN = TNaN"
| "floatstr PosInf = TInfinity"
| "floatstr NegInf = TNegInfinity"
| "floatstr (Fin q) = TFloat q"

text \<open>\<open>np.isnan(obj) or np.isinf(obj)\<close>.\<close>

fun isnan_or_isinf :: "pyfloat \<Rightarrow> bool" where
  "isnan_or_isinf (Fin q) = False"
| "isnan_or_isinf f = True"

definition not_serializable :: pyerror where
  "not_serializable = PyError TypeError (ascii ''Object is not JSON serializable'')"

text \<open>
  \<open>NumpyJsonEncoder.default\<close> (lines 20 to 29). \<open>super().default\<close> raises \<open>TypeError\<close>.
\<close>

fun default :: "pyval \<Rightarrow> pyerror + pyval" where
  "default (NpInteger i) = Inr (VInt i)"
| "default (NpFloat64 f) = Inr (VFloat (if \<not> isnan_or_isinf f then f else Fin 0))"
| "default (NpFloating f) = Inr (VFloat (if \<not> isnan_or_isinf f then f else Fin 0))"
| "default (NpArray xs) = Inr (VList xs)"
| "default (NpBool b) = Inr (VBool b)"
| "default obj = Inl not_serializable"

text \<open>
  The encoder of the standard library, which tries the built-in types first and calls
  \<open>default\<close> only on an object that is none of them, then encodes what \<open>default\<close> returned.
  An instance of a subclass of \<open>float\<close> is a \<open>float\<close> to it.
\<close>

fun sequence :: "(pyerror + 'a) list \<Rightarrow> pyerror + 'a list" where
  "sequence [] = Inr []"
| "sequence (Inl e # rs) = Inl e"
| "sequence (Inr x # rs) = (case sequence rs of Inl e \<Rightarrow> Inl e | Inr xs \<Rightarrow> Inr (x # xs))"

definition encode_rank :: "pyval \<Rightarrow> nat" where
  "encode_rank v =
     2 * size v +
     (case v of NpInteger i \<Rightarrow> 1 | NpFloat64 f \<Rightarrow> 1 | NpFloating f \<Rightarrow> 1
      | NpBool b \<Rightarrow> 1 | NpArray xs \<Rightarrow> 1 | _ \<Rightarrow> 0)"

function dumps :: "pyval \<Rightarrow> pyerror + json_text" where
  "dumps (VStr s) = Inr (TString s)"
| "dumps VNone = Inr TNull"
| "dumps (VBool b) = Inr (if b then TTrue else TFalse)"
| "dumps (VInt i) = Inr (TInt i)"
| "dumps (VFloat f) = Inr (floatstr f)"
| "dumps (NpFloat64 f) = Inr (floatstr f)"
| "dumps (VList xs) =
     (case sequence (map dumps xs) of Inl e \<Rightarrow> Inl e | Inr ts \<Rightarrow> Inr (TArray ts))"
| "dumps (VDict kvs) =
     (case sequence (map (\<lambda>kv. dumps (snd kv)) kvs) of
        Inl e \<Rightarrow> Inl e
      | Inr ts \<Rightarrow> Inr (TObject (zip (map fst kvs) ts)))"
| "dumps (NpInteger i) =
     (case default (NpInteger i) of Inl e \<Rightarrow> Inl e | Inr o' \<Rightarrow> dumps o')"
| "dumps (NpFloating f) =
     (case default (NpFloating f) of Inl e \<Rightarrow> Inl e | Inr o' \<Rightarrow> dumps o')"
| "dumps (NpBool b) =
     (case default (NpBool b) of Inl e \<Rightarrow> Inl e | Inr o' \<Rightarrow> dumps o')"
| "dumps (NpArray xs) =
     (case default (NpArray xs) of Inl e \<Rightarrow> Inl e | Inr o' \<Rightarrow> dumps o')"
| "dumps (VObject n) =
     (case default (VObject n) of Inl e \<Rightarrow> Inl e | Inr o' \<Rightarrow> dumps o')"
  by pat_completeness auto
termination
proof (relation "measure encode_rank")
  show "wf (measure encode_rank)" by simp
next
  fix xs :: "pyval list" and x
  assume "x \<in> set xs"
  then have "size x < size_list size xs"
    by (induction xs) auto
  moreover have "encode_rank x \<le> 2 * size x + 1"
    by (simp add: encode_rank_def split: pyval.splits)
  ultimately show "(x, VList xs) \<in> measure encode_rank"
    by (simp add: encode_rank_def)
next
  fix kvs :: "(pystr \<times> pyval) list" and kv
  assume "kv \<in> set kvs"
  then have "size (snd kv) < size_list (size_prod (\<lambda>k. 0) size) kvs"
  proof (induction kvs)
    case Nil
    then show ?case by simp
  next
    case (Cons p kvs)
    show ?case
    proof (cases "kv = p")
      case True
      then show ?thesis by (cases p) simp
    next
      case False
      with Cons have "size (snd kv) < size_list (size_prod (\<lambda>k. 0) size) kvs" by simp
      then show ?thesis by simp
    qed
  qed
  moreover have "encode_rank (snd kv) \<le> 2 * size (snd kv) + 1"
    by (simp add: encode_rank_def split: pyval.splits)
  ultimately show "(snd kv, VDict kvs) \<in> measure encode_rank"
    by (simp add: encode_rank_def)
qed (auto simp: encode_rank_def)

subsection \<open>\<open>ProgressEmitter.emit\<close>\<close>

text \<open>
  A field of the update handed to the document store: a value stored as it is, the text
  \<open>json.dumps\<close> returned, or \<open>str(value)\<close>, which is the value itself for a string and
  is kept unevaluated for anything else.
\<close>

datatype field = Direct pyval | JsonText json_text | StrOf pyval

type_synonym fields = "(pystr \<times> field) list"

fun py_str :: "pyval \<Rightarrow> field" where
  "py_str (VStr s) = Direct (VStr s)"
| "py_str v = StrOf v"

text \<open>
  What the numeric library decides: \<open>bool(a)\<close> and \<open>int(a)\<close> of an array, and the truth
  of \<open>value == {} or value == []\<close> for one of its scalars or arrays, which is an
  elementwise comparison whose outcome (a truth value or an exception) differs between
  its versions.
\<close>

record numpy_lib =
  array_bool :: "pyval list \<Rightarrow> pyerror + bool"
  array_int :: "pyval list \<Rightarrow> pyerror + int"
  equals_empty :: "pyval \<Rightarrow> pyerror + bool"

text \<open>
  The world around one call of \<open>emit\<close>: the numeric library, \<open>int\<close> of a string (the
  numeral syntax of the language), the two readings of the clock
  (\<open>datetime.utcnow().isoformat()\<close>), and the \<open>update\<close> of the document, which returns or
  raises.
\<close>

record emitter_env =
  numpy :: numpy_lib
  int_of_str :: "pystr \<Rightarrow> pyerror + int"
  utcnow :: "nat \<Rightarrow> pystr"
  store_update :: "fields \<Rightarrow> pyerror option"

text \<open>\<open>int(progress)\<close> (line 63): a float is truncated towards zero.\<close>

definition int_type_error :: pyerror where
  "int_type_error =
     PyError TypeError
       (ascii ''int() argument must be a string, a bytes-like object or a real number'')"

fun int_of_float :: "pyfloat \<Rightarrow> pyerror + int" where
  "int_of_float (Fin q) = Inr (if q < 0 then - \<lfloor>- q\<rfloor> else \<lfloor>q\<rfloor>)"
| "int_of_float NaN = Inl (PyError ValueError (ascii ''cannot convert float NaN to integer''))"
| "int_of_float f =
     Inl (PyError (OtherException (ascii ''OverflowError''))
            (ascii ''cannot convert float infinity to integer''))"

fun py_int :: "emitter_env \<Rightarrow> pyval \<Rightarrow> pyerror + int" where
  "py_int E (VInt i) = Inr i"
| "py_int E (VBool b) = Inr (if b then 1 else 0)"
| "py_int E (VFloat f) = int_of_float f"
| "py_int E (VStr s) = int_of_str E s"
| "py_int E (NpInteger i) = Inr i"
| "py_int E (NpFloat64 f) = int_of_float f"
| "py_int E (NpFloating f) = int_of_float f"
| "py_int E (NpBool b) = Inr (if b then 1 else 0)"
| "py_int E (NpArray xs) = array_int (numpy E) xs"
| "py_int E v = Inl int_type_error"

text \<open>The truth value of an object, as \<open>if details:\<close> takes it.\<close>

fun truthy :: "numpy_lib \<Rightarrow> pyval \<Rightarrow> pyerror + bool" where
  "truthy np VNone = Inr False"
| "truthy np (VBool b) = Inr b"
| "truthy np (VInt i) = Inr (i \<noteq> 0)"
| "truthy np (VFloat f) = Inr (f \<noteq> Fin 0)"
| "truthy np (VStr s) = Inr (s \<noteq> [])"
| "truthy np (VList xs) = Inr (xs \<noteq> [])"
| "truthy np (VDict kvs) = Inr (kvs \<noteq> [])"
| "truthy np (NpInteger i) = Inr (i \<noteq> 0)"
| "truthy np (NpFloat64 f) = Inr (f \<noteq> Fin 0)"
| "truthy np (NpFloating f) = Inr (f \<noteq> Fin 0)"
| "truthy np (NpBool b) = Inr b"
| "truthy np (NpArray xs) = array_bool np xs"
| "truthy np (VObject n) = Inr True"

text \<open>Line 75: \<open>value is None or value == {} or value == []\<close>.\<close>

fun skipped :: "numpy_lib \<Rightarrow> pyval \<Rightarrow> pyerror + bool" where
  "skipped np VNone = Inr True"
| "skipped np (VDict kvs) = Inr (kvs = [])"
| "skipped np (VList xs) = Inr (xs = [])"
| "skipped np (NpInteger i) = equals_empty np (NpInteger i)"
| "skipped np (NpFloat64 f) = equals_empty np (NpFloat64 f)"
| "skipped np (NpFloating f) = equals_empty np (NpFloating f)"
| "skipped np (NpBool b) = equals_empty np (NpBool b)"
| "skipped np (NpArray xs) = equals_empty np (NpArray xs)"
| "skipped np v = Inr False"

text \<open>Line 78: \<open>isinstance(value, (str, int, float, bool))\<close>.\<close>

fun is_primitive :: "pyval \<Rightarrow> bool" where
  "is_primitive (VStr s) = True"
| "is_primitive (VInt i) = True"
| "is_primitive (VFloat f) = True"
| "is_primitive (NpFloat64 f) = True"
| "is_primitive (VBool b) = True"
| "is_primitive v = False"

definition detail_key :: "pystr \<Rightarrow> pystr" where
  "detail_key key = ascii ''progress_detail_'' @ key"

text \<open>Lines 78 to 89: what is stored for a pair that is not skipped.\<close>

definition detail_field :: "pyval \<Rightarrow> field" where
  "detail_field v =
     (if is_primitive v then Direct v
      else (case dumps v of Inr t \<Rightarrow> JsonText t | Inl e \<Rightarrow> py_str v))"

text \<open>The loop of lines 73 to 89 over the items of \<open>details\<close>.\<close>

fun add_details :: "numpy_lib \<Rightarrow> pydict \<Rightarrow> fields \<Rightarrow> pyerror + fields" where
  "add_details np [] update_data = Inr update_data"
| "add_details np ((key, v) # rest) update_data =
     (case skipped np v of
        Inl e \<Rightarrow> Inl e
      | Inr True \<Rightarrow> add_details np rest update_data
      | Inr False \<Rightarrow>
          add_details np rest (dict_set update_data (detail_key key) (detail_field v)))"

text \<open>Lines 59 to 66, with \<open>percentage\<close> the value of \<open>int(progress)\<close>.\<close>

definition base_fields :: "emitter_env \<Rightarrow> pyval \<Rightarrow> pyval \<Rightarrow> pyval \<Rightarrow> int \<Rightarrow> fields" where
  "base_fields E agent stage message percentage =
     [(ascii ''progress_agent'', py_str agent),
      (ascii ''progress_stage'', py_str stage),
      (ascii ''progress_message'', py_str message),
      (ascii ''progress_percentage'', Direct (VInt percentage)),
      (ascii ''progress_timestamp'', Direct (VStr (utcnow E 0))),
      (ascii ''last_updated'', Direct (VStr (utcnow E 1)))]"

text \<open>
  Lines 59 to 92: the update that is built. Every argument is any value (\<open>details\<close> is
  \<open>VNone\<close> when not given).
\<close>

definition build_update ::
  "emitter_env \<Rightarrow> pyval \<Rightarrow> pyval \<Rightarrow> pyval \<Rightarrow> pyval \<Rightarrow> pyval \<Rightarrow> pyerror + fields" where
  "build_update E agent stage message progress details =
     (case py_int E progress of
        Inl e \<Rightarrow> Inl e
      | Inr percentage \<Rightarrow>
     (let update_data = base_fields E agent stage message percentage in
      case truthy (numpy E) details of
        Inl e \<Rightarrow> Inl e
      | Inr False \<Rightarrow> Inr update_data
      | Inr True \<Rightarrow>
          (case details of
             VDict kvs \<Rightarrow> add_details (numpy E) kvs update_data
           | _ \<Rightarrow> Inr (dict_set update_data (ascii ''progress_detail_info'') (py_str details)))))"

text \<open>
  The body of the \<open>try\<close> (lines 58 to 96), on the list of the updates handed to the
  store so far.
\<close>

definition emit_try ::
  "emitter_env \<Rightarrow> pyval \<Rightarrow> pyval \<Rightarrow> pyval \<Rightarrow> pyval \<Rightarrow> pyval \<Rightarrow> fields list
     \<Rightarrow> fields list \<times> (pyerror + unit)" where
  "emit_try E agent stage message progress details updates =
     (case build_update E agent stage message progress details of
        Inl e \<Rightarrow> (updates, Inl e)
      | Inr update_data \<Rightarrow>
          (case store_update E update_data of
             Some e \<Rightarrow> (updates @ [update_data], Inl e)
           | None \<Rightarrow> (updates @ [update_data], Inr ())))"

text \<open>\<open>emit\<close>: the body under the handler of line 98, which logs and returns.\<close>

definition emit ::
  "emitter_env \<Rightarrow> pyval \<Rightarrow> pyval \<Rightarrow> pyval \<Rightarrow> pyval \<Rightarrow> pyval \<Rightarrow> fields list
     \<Rightarrow> fields list \<times> (pyerror + unit)" where
  "emit E agent stage message progress details updates =
     (case emit_try E agent stage message progress details updates of
        (updates', Inr r) \<Rightarrow> (updates', Inr r)
      | (updates', Inl e) \<Rightarrow> (updates', Inr ()))"

section \<open>Example collaborators\<close>

text \<open>
  A fragment of the Unicode tables, for the examples: the two Latin-1 spaces, the
  Arabic-Indic decimal digits, the superscript two (a digit that is no decimal digit);
  the examples lower-case ASCII text only.
\<close>

definition example_unicode :: unicode_db where
  "example_unicode =
     \<lparr>u_isspace = (\<lambda>c. c = 133 \<or> c = 160),
      u_digit = (\<lambda>c. if 1632 \<le> c \<and> c \<le> 1641 then Decimal (c - 1632)
                     else if c = 178 then OtherDigit else NotDigit),
      u_lower = (\<lambda>seen rest c. [c])\<rparr>"

definition decode_error :: pyerror where
  "decode_error = PyError JSONDecodeError (ascii ''Expecting value: line 1 column 1 (char 0)'')"

text \<open>
  A world in which the image opens, the model answers every submission with the text
  \<open>reply\<close>, and \<open>json.loads\<close> is known at one text: it returns \<open>parsed\<close> for \<open>body\<close> and
  is taken to fail elsewhere.
\<close>

definition answering :: "pystr \<Rightarrow> pystr \<Rightarrow> pyval \<Rightarrow> env" where
  "answering reply body parsed =
     \<lparr>unicode = example_unicode,
      open_image = (\<lambda>path. None),
      generate = (\<lambda>n m. Inr (Response (Inr reply))),
      loads = (\<lambda>t. if t = body then Inr parsed else Inl decode_error)\<rparr>"

text \<open>
  A world in which the first submission fails with \<open>e1\<close> and the second, if there is
  one, with \<open>e2\<close>.
\<close>

definition failing :: "pyerror \<Rightarrow> pyerror \<Rightarrow> env" where
  "failing e1 e2 =
     \<lparr>unicode = example_unicode,
      open_image = (\<lambda>path. None),
      generate = (\<lambda>n m. if n = 0 then Inl e1 else Inl e2),
      loads = (\<lambda>t. Inl decode_error)\<rparr>"

definition fresh_agent :: agent where
  "fresh_agent = \<lparr>model_name = primary_model, model = primary_model\<rparr>"

definition receipt_path :: pystr where
  "receipt_path = ascii ''receipt.png''"

definition not_found_error :: pyerror where
  "not_found_error =
     PyError (OtherException (ascii ''NotFound''))
       (ascii ''404 models/gemini-2.5-flash is not found for API version v1beta'')"

definition quota_error :: pyerror where
  "quota_error =
     PyError (OtherException (ascii ''ResourceExhausted'')) (ascii ''429 Quota exceeded'')"

text \<open>
  A receipt as the model writes it, with a given \<open>total_amount\<close> string, and the object
  \<open>json.loads\<close> returns for that text.
\<close>

definition receipt_json :: "pystr \<Rightarrow> pystr" where
  \<open>receipt_json amount =
     ascii ''{"merchant_name": "Acme Store", "total_amount": "'' @ amount @
     ascii ''", "currency": "$", "date": "2025-01-15", "transaction_id": "TX-1", '' @
     ascii ''"ocr_text": "ACME STORE TOTAL", "confidence": 92, "visual_anomalies": []}''\<close>

definition receipt_fields :: "pystr \<Rightarrow> pydict" where
  "receipt_fields amount =
     [(k_merchant_name, VStr (ascii ''Acme Store'')),
      (k_total_amount, VStr amount),
      (k_currency, VStr (ascii ''$'')),
      (k_date, VStr (ascii ''2025-01-15'')),
      (k_transaction_id, VStr (ascii ''TX-1'')),
      (k_ocr_text, VStr (ascii ''ACME STORE TOTAL'')),
      (k_confidence, VInt 92),
      (k_visual_anomalies, VList [])]"

definition fenced :: "pystr \<Rightarrow> pystr" where
  "fenced body = ascii ''```json'' @ body @ ascii ''```''"

text \<open>An answer whose \<open>total_amount\<close> is a negative number.\<close>

definition negative_json :: pystr where
  \<open>negative_json = ascii ''{"total_amount": -5}''\<close>

definition negative_fields :: pydict where
  "negative_fields = [(k_total_amount, VInt (- 5))]"

text \<open>A progress collaborator that never raises.\<close>

definition quiet :: collaborator where
  "quiet c = None"






text \<open>Details with a not-a-number inside a list: \<open>{"scores": [numpy.float64("nan")]}\<close>.\<close>

definition nan_details :: pyval where
  "nan_details = VDict [(ascii ''scores'', VList [NpFloat64 NaN])]"

section \<open>Traces\<close>

text \<open>The models a trace submits to, in order.\<close>

fun submissions :: "event list \<Rightarrow> pystr list" where
  "submissions [] = []"
| "submissions (Submitted m # tr) = m # submissions tr"
| "submissions (Emitted c # tr) = submissions tr"

text \<open>One agent serving several calls, one after the other.\<close>

fun analyze_calls :: "(env \<times> collaborator option \<times> pystr) list \<Rightarrow> state \<Rightarrow> state" where
  "analyze_calls [] s = s"
| "analyze_calls ((E, progress, image_path) # calls) s =
     analyze_calls calls (fst (analyze E progress image_path s))"

text \<open>The eight fields a caller reads.\<close>

definition required_fields :: "pystr list" where
  "required_fields =
     [k_merchant_name, k_total_amount, k_currency, k_date, k_transaction_id, k_ocr_text,
      k_confidence, k_visual_anomalies]"

definition has_required :: "pydict \<Rightarrow> bool" where
  "has_required d = list_all (dict_has d) required_fields"

section \<open>Properties\<close>

subsection \<open>Shared facts\<close>

lemmas key_defs = k_merchant_name_def k_total_amount_def k_currency_def k_date_def
  k_transaction_id_def k_ocr_text_def k_confidence_def k_visual_anomalies_def k_error_def

lemma submissions_append: "submissions (xs @ ys) = submissions xs @ submissions ys"
  by (induction xs rule: submissions.induct) auto

lemma analyze_Inl:
  "analyze_try E progress image_path s = (s', Inl e) \<Longrightarrow>
   analyze E progress image_path s = (s', Inr default_result)"
  by (simp add: analyze_def)

lemma analyze_Inr:
  "analyze_try E progress image_path s = (s', Inr data) \<Longrightarrow>
   analyze E progress image_path s = (s', Inr data)"
  by (simp add: analyze_def)


lemma default_merchant:
  "dict_get default_result k_merchant_name VNone = VStr (ascii ''Unknown Merchant'')"
  by (simp add: default_result_def dict_get_def key_defs ascii_def)



lemma failing_quota_try:
  "analyze_try (failing quota_error e2) None receipt_path (fresh_agent, []) =
     ((fresh_agent, [Submitted primary_model]), Inl quota_error)"
  by (simp add: analyze_try_def emit_opt_def failing_def call_model_def fresh_agent_def
      is_not_found_def quota_error_def lower_def startswith_def ascii_def example_unicode_def)

subsection \<open>No exception leaves \<open>analyze\<close>\<close>



subsection \<open>The steps of \<open>analyze\<close>\<close>

lemma emit_opt_cases:
  "emit_opt progress c tr = (tr', r) \<Longrightarrow> \<exists>new. tr' = tr @ new \<and> submissions new = []"
  by (auto simp: emit_opt_def split: option.splits)

lemma call_model_cases:
  "call_model E (a, tr) = ((a', tr'), r) \<Longrightarrow>
     (a' = a \<and> tr' = tr @ [Submitted (model a)]) \<or>
     (a' = a\<lparr>model := secondary_model\<rparr> \<and>
      tr' = tr @ [Submitted (model a), Submitted secondary_model])"
  by (auto simp: call_model_def Let_def split: sum.splits if_splits)

text \<open>What the body makes of the outcome of the model call, once the call is reached.\<close>

lemma analyze_try_reached:
  assumes "emit_opt progress started_call tr = (tr1, None)"
    and "open_image E image_path = None"
    and "call_model E (a, tr1) = ((a2, tr2), r)"
  shows "\<exists>tr3 new res. analyze_try E progress image_path (a, tr) = ((a2, tr3), res) \<and>
           tr3 = tr2 @ new \<and> submissions new = [] \<and>
           (case r of Inl e \<Rightarrow> res = Inl e \<and> new = [] | Inr x \<Rightarrow> True)"
proof (cases r)
  case (Inl e)
  with assms show ?thesis by (simp add: analyze_try_def)
next
  case (Inr resp)
  obtain rt where resp: "resp = Response rt" by (cases resp)
  show ?thesis
  proof (cases rt)
    case (Inl e)
    with assms Inr resp show ?thesis by (simp add: analyze_try_def)
  next
    case raw: (Inr raw_text)
    show ?thesis
    proof (cases "loads E (clean_response (unicode E) raw_text)")
      case (Inl e)
      with assms Inr resp raw show ?thesis by (simp add: analyze_try_def)
    next
      case parsed: (Inr parsed)
      show ?thesis
      proof (cases "sanitize_amount (unicode E) parsed")
        case (Inl e)
        with assms Inr resp raw parsed show ?thesis by (simp add: analyze_try_def)
      next
        case d: (Inr d)
        obtain tr3 r3 where e2: "emit_opt progress (complete_call (ensure_confidence d)) tr2 = (tr3, r3)"
          by (cases "emit_opt progress (complete_call (ensure_confidence d)) tr2")
        from emit_opt_cases [OF e2] obtain new where "tr3 = tr2 @ new" "submissions new = []"
          by blast
        with assms Inr resp raw parsed d e2 show ?thesis
          by (cases r3) (simp_all add: analyze_try_def)
      qed
    qed
  qed
qed

lemma analyze_try_not_reached:
  assumes "emit_opt progress started_call tr = (tr1, r1)"
    and "r1 \<noteq> None \<or> open_image E image_path \<noteq> None"
  shows "\<exists>e. analyze_try E progress image_path (a, tr) = ((a, tr1), Inl e)"
  using assms by (auto simp: analyze_try_def split: option.splits)

lemma analyze_try_cases:
  assumes "fst (analyze_try E progress image_path (a, tr)) = (a', tr')"
  shows "\<exists>new. tr' = tr @ new \<and>
           ((a' = a \<and> submissions new = []) \<or>
            (a' = a \<and> submissions new = [model a]) \<or>
            (a' = a\<lparr>model := secondary_model\<rparr> \<and>
             submissions new = [model a, secondary_model]))"
proof -
  obtain tr1 r1 where e1: "emit_opt progress started_call tr = (tr1, r1)"
    by (cases "emit_opt progress started_call tr")
  from emit_opt_cases [OF e1] obtain new1 where n1: "tr1 = tr @ new1" "submissions new1 = []"
    by blast
  show ?thesis
  proof (cases "r1 \<noteq> None \<or> open_image E image_path \<noteq> None")
    case True
    from analyze_try_not_reached [OF e1 True, of a] assms n1 show ?thesis by auto
  next
    case False
    then have r1: "r1 = None" and op: "open_image E image_path = None" by auto
    obtain a2 tr2 r where cm: "call_model E (a, tr1) = ((a2, tr2), r)"
      by (cases "call_model E (a, tr1)") auto
    from analyze_try_reached [OF e1 [unfolded r1] op cm] assms
    obtain new where fin: "a' = a2" "tr' = tr2 @ new" "submissions new = []"
      by auto
    from call_model_cases [OF cm] show ?thesis
    proof
      assume "a2 = a \<and> tr2 = tr1 @ [Submitted (model a)]"
      with fin n1 have "tr' = tr @ (new1 @ [Submitted (model a)] @ new)"
        and "submissions (new1 @ [Submitted (model a)] @ new) = [model a]" and "a' = a"
        by (simp_all add: submissions_append)
      then show ?thesis by blast
    next
      assume "a2 = a\<lparr>model := secondary_model\<rparr> \<and>
        tr2 = tr1 @ [Submitted (model a), Submitted secondary_model]"
      with fin n1 have "tr' = tr @ (new1 @ [Submitted (model a), Submitted secondary_model] @ new)"
        and "submissions (new1 @ [Submitted (model a), Submitted secondary_model] @ new)
              = [model a, secondary_model]" and "a' = a\<lparr>model := secondary_model\<rparr>"
        by (simp_all add: submissions_append)
      then show ?thesis by blast
    qed
  qed
qed

lemma fst_analyze: "fst (analyze E progress image_path s) = fst (analyze_try E progress image_path s)"
  unfolding analyze_def by (cases "analyze_try E progress image_path s") (auto split: sum.splits)

lemma unavailable_names_key:
  "contains (str_of_error unavailable_error) (ascii ''GEMINI_API_KEY'')"
  by (simp add: unavailable_error_def ascii_def startswith_def)

lemma call_model_primary_ok:
  "generate E 0 (model a) = Inr r \<Longrightarrow>
   call_model E (a, tr) = ((a, tr @ [Submitted (model a)]), Inr r)"
  by (simp add: call_model_def)

lemma call_model_other:
  "generate E 0 (model a) = Inl e1 \<Longrightarrow> \<not> is_not_found (unicode E) e1 \<Longrightarrow>
   call_model E (a, tr) = ((a, tr @ [Submitted (model a)]), Inl e1)"
  by (simp add: call_model_def)

lemma call_model_retry_ok:
  "generate E 0 (model a) = Inl e1 \<Longrightarrow> is_not_found (unicode E) e1 \<Longrightarrow>
   generate E 1 secondary_model = Inr r \<Longrightarrow>
   call_model E (a, tr) =
     ((a\<lparr>model := secondary_model\<rparr>, tr @ [Submitted (model a), Submitted secondary_model]),
      Inr r)"
  by (simp add: call_model_def)

lemma call_model_retry_fails:
  "generate E 0 (model a) = Inl e1 \<Longrightarrow> is_not_found (unicode E) e1 \<Longrightarrow>
   generate E 1 secondary_model = Inl e2 \<Longrightarrow>
   call_model E (a, tr) =
     ((a\<lparr>model := secondary_model\<rparr>, tr @ [Submitted (model a), Submitted secondary_model]),
      Inl unavailable_error)"
  by (simp add: call_model_def)

lemma not_found_is_not_found: "is_not_found example_unicode not_found_error"
  by (simp add: is_not_found_def not_found_error_def ascii_def startswith_def)

lemma quota_is_not_not_found: "\<not> is_not_found example_unicode quota_error"
  by (simp add: is_not_found_def quota_error_def ascii_def startswith_def lower_def)

lemma failing_not_found_try:
  "analyze_try (failing not_found_error e2) None receipt_path (fresh_agent, []) =
     ((fresh_agent\<lparr>model := secondary_model\<rparr>,
       [Submitted primary_model, Submitted secondary_model]), Inl unavailable_error)"
  by (simp add: analyze_try_def emit_opt_def failing_def call_model_def fresh_agent_def
      not_found_is_not_found)

subsection \<open>The fallback to the second model\<close>

text \<open>
  C4. When the call reaches the model and the first submission fails: if the error is of
  the not-found kind (\<open>404\<close> or \<open>not found\<close> in its text), exactly one more submission
  is made, to the secondary model; if that fails too, a \<open>ValueError\<close> whose text names
  \<open>GEMINI_API_KEY\<close> reaches the outer handler, which returns the default record. Any
  other error of the first submission reaches the outer handler with no second
  submission.
\<close>

theorem fallback_policy:
  assumes "emit_opt progress started_call tr = (tr1, None)"
    and "open_image E image_path = None"
    and "generate E 0 (model a) = Inl e1"
    and "analyze_try E progress image_path (a, tr) = ((a', tr'), res)"
  shows "(if is_not_found (unicode E) e1
          then submissions tr' = submissions tr @ [model a, secondary_model] \<and>
               (case generate E 1 secondary_model of
                  Inr r \<Rightarrow> snd (call_model E (a, tr1)) = Inr r
                | Inl e2 \<Rightarrow>
                    res = Inl unavailable_error \<and>
                    snd (analyze E progress image_path (a, tr)) = Inr default_result)
          else submissions tr' = submissions tr @ [model a] \<and> res = Inl e1 \<and>
               snd (analyze E progress image_path (a, tr)) = Inr default_result) \<and>
         unavailable_error =
           PyError ValueError
             (ascii ''Gemini API unavailable. Please verify your GEMINI_API_KEY has model access.'') \<and>
         contains (str_of_error unavailable_error) (ascii ''GEMINI_API_KEY'')"
proof -
  from emit_opt_cases [OF assms(1)] have s1: "submissions tr1 = submissions tr"
    by (auto simp: submissions_append)
  have reached: "call_model E (a, tr1) = ((a2, tr2), r) \<Longrightarrow>
      submissions tr' = submissions tr2 \<and> (case r of Inl e \<Rightarrow> res = Inl e | Inr x \<Rightarrow> True)"
    for a2 tr2 r
    using analyze_try_reached [OF assms(1) assms(2), of a a2 tr2 r] assms(4)
    by (auto simp: submissions_append split: sum.splits)
  have main: "if is_not_found (unicode E) e1
          then submissions tr' = submissions tr @ [model a, secondary_model] \<and>
               (case generate E 1 secondary_model of
                  Inr r \<Rightarrow> snd (call_model E (a, tr1)) = Inr r
                | Inl e2 \<Rightarrow>
                    res = Inl unavailable_error \<and>
                    snd (analyze E progress image_path (a, tr)) = Inr default_result)
          else submissions tr' = submissions tr @ [model a] \<and> res = Inl e1 \<and>
               snd (analyze E progress image_path (a, tr)) = Inr default_result"
  proof (cases "is_not_found (unicode E) e1")
    case False
    from reached [OF call_model_other [OF assms(3) False]] s1
    have "submissions tr' = submissions tr @ [model a]" "res = Inl e1"
      by (simp_all add: submissions_append)
    with False assms(4) analyze_Inl [of E progress image_path "(a, tr)" "(a', tr')" e1]
    show ?thesis by simp
  next
    case True
    show ?thesis
    proof (cases "generate E 1 secondary_model")
      case (Inr r)
      from reached [OF call_model_retry_ok [OF assms(3) True Inr]] s1
      have "submissions tr' = submissions tr @ [model a, secondary_model]"
        by (simp add: submissions_append)
      with True Inr call_model_retry_ok [OF assms(3) True Inr, of tr1] show ?thesis by simp
    next
      case (Inl e2)
      from reached [OF call_model_retry_fails [OF assms(3) True Inl]] s1
      have "submissions tr' = submissions tr @ [model a, secondary_model]"
        "res = Inl unavailable_error"
        by (simp_all add: submissions_append)
      with True Inl assms(4)
        analyze_Inl [of E progress image_path "(a, tr)" "(a', tr')" unavailable_error]
      show ?thesis by simp
    qed
  qed
  with unavailable_names_key show ?thesis
    by (simp add: unavailable_error_def)
qed

theorem fallback_policy_witness:
  "submissions [Submitted primary_model, Submitted secondary_model]
     = [primary_model, secondary_model] \<and>
   snd (analyze_try (failing not_found_error quota_error) None receipt_path (fresh_agent, []))
     = Inl unavailable_error \<and>
   snd (analyze (failing not_found_error quota_error) None receipt_path (fresh_agent, []))
     = Inr default_result \<and>
   submissions [Submitted primary_model] = [primary_model] \<and>
   snd (analyze_try (failing quota_error quota_error) None receipt_path (fresh_agent, []))
     = Inl quota_error \<and>
   snd (analyze (failing quota_error quota_error) None receipt_path (fresh_agent, []))
     = Inr default_result"
proof -
  let ?E = "failing not_found_error quota_error"
  let ?Q = "failing quota_error quota_error"
  have h1: "emit_opt None started_call [] = ([], None)"
    by (simp add: emit_opt_def)
  have h2: "open_image ?E receipt_path = None" "open_image ?Q receipt_path = None"
    by (simp_all add: failing_def)
  have h3: "generate ?E 0 (model fresh_agent) = Inl not_found_error"
    by (simp add: failing_def)
  have q3: "generate ?Q 0 (model fresh_agent) = Inl quota_error"
    by (simp add: failing_def)
  have nf: "is_not_found (unicode ?E) not_found_error"
    by (simp add: failing_def not_found_is_not_found)
  have qn: "\<not> is_not_found (unicode ?Q) quota_error"
    by (simp add: failing_def quota_is_not_not_found)
  have g2: "generate ?E 1 secondary_model = Inl quota_error"
    by (simp add: failing_def)
  from fallback_policy [OF h1 h2(1) h3 failing_not_found_try] nf g2
  have a: "snd (analyze ?E None receipt_path (fresh_agent, [])) = Inr default_result"
    by simp
  from fallback_policy [OF h1 h2(2) q3 failing_quota_try] qn
  have b: "snd (analyze ?Q None receipt_path (fresh_agent, [])) = Inr default_result"
    by simp
  from a b show ?thesis
    by (simp add: failing_not_found_try failing_quota_try)
qed

subsection \<open>The model handle after a fallback\<close>

lemma models_differ: "secondary_model \<noteq> primary_model"
  by (simp add: secondary_model_def primary_model_def ascii_def)

lemma analyze_keeps_secondary:
  assumes "model a = secondary_model"
    and "fst (analyze E progress image_path (a, tr)) = (a', tr')"
  shows "model a' = secondary_model \<and>
         (\<exists>new. tr' = tr @ new \<and> list_all (\<lambda>m. m = secondary_model) (submissions new))"
proof -
  from assms(2) have "fst (analyze_try E progress image_path (a, tr)) = (a', tr')"
    by (simp add: fst_analyze)
  from analyze_try_cases [OF this] obtain new where
    "tr' = tr @ new" and
    "(a' = a \<and> submissions new = []) \<or> (a' = a \<and> submissions new = [model a]) \<or>
     (a' = a\<lparr>model := secondary_model\<rparr> \<and> submissions new = [model a, secondary_model])"
    by blast
  with assms(1) show ?thesis by auto
qed

lemma analyze_calls_keep_secondary:
  "model a = secondary_model \<Longrightarrow> analyze_calls calls (a, tr) = (a'', tr'') \<Longrightarrow>
   model a'' = secondary_model \<and>
   (\<exists>later. tr'' = tr @ later \<and> list_all (\<lambda>m. m = secondary_model) (submissions later))"
proof (induction calls arbitrary: a tr)
  case Nil
  then show ?case by simp
next
  case (Cons c calls)
  obtain E progress image_path where c: "c = (E, progress, image_path)"
    by (cases c) auto
  obtain a1 tr1 where step: "fst (analyze E progress image_path (a, tr)) = (a1, tr1)"
    by (cases "fst (analyze E progress image_path (a, tr))") auto
  from analyze_keeps_secondary [OF Cons.prems(1) step] obtain new where
    m1: "model a1 = secondary_model" and t1: "tr1 = tr @ new"
    and l1: "list_all (\<lambda>m. m = secondary_model) (submissions new)"
    by blast
  from Cons.prems(2) c step have "analyze_calls calls (a1, tr1) = (a'', tr'')"
    by simp
  from Cons.IH [OF m1 this] obtain later where
    "model a'' = secondary_model" and "tr'' = tr1 @ later"
    and "list_all (\<lambda>m. m = secondary_model) (submissions later)"
    by blast
  with t1 l1 have "tr'' = tr @ (new @ later)"
    and "list_all (\<lambda>m. m = secondary_model) (submissions (new @ later))"
    by (simp_all add: submissions_append)
  with \<open>model a'' = secondary_model\<close> show ?case by blast
qed

text \<open>
  C10. When a call of \<open>analyze\<close> falls back to the secondary model, the agent's model
  handle is the secondary model afterwards, and it stays so: in every later call on the
  same agent, whatever the collaborators do, every submission goes to the secondary
  model, which is not the primary one.
\<close>

theorem fallback_is_permanent:
  assumes "emit_opt progress started_call tr = (tr1, None)"
    and "open_image E image_path = None"
    and "generate E 0 (model a) = Inl e1"
    and "is_not_found (unicode E) e1"
    and "fst (analyze E progress image_path (a, tr)) = (a', tr')"
    and "analyze_calls calls (a', tr') = (a'', tr'')"
  shows "model a' = secondary_model \<and> model a'' = secondary_model \<and>
         (\<exists>later. tr'' = tr' @ later \<and>
            list_all (\<lambda>m. m = secondary_model) (submissions later)) \<and>
         secondary_model \<noteq> primary_model"
proof -
  obtain s2 r where cm: "call_model E (a, tr1) = (s2, r)"
    by (cases "call_model E (a, tr1)")
  with assms(3) assms(4) have "fst s2 = a\<lparr>model := secondary_model\<rparr>"
    by (auto simp: call_model_def Let_def split: sum.splits)
  then obtain tr2 where s2: "s2 = (a\<lparr>model := secondary_model\<rparr>, tr2)"
    by (cases s2) auto
  from analyze_try_reached [OF assms(1) assms(2) cm [unfolded s2]] assms(5)
  have "a' = a\<lparr>model := secondary_model\<rparr>"
    by (auto simp: fst_analyze)
  then have m: "model a' = secondary_model" by simp
  from analyze_calls_keep_secondary [OF m assms(6)] m models_differ show ?thesis
    by simp
qed

theorem fallback_is_permanent_witness:
  "fst (analyze (failing not_found_error quota_error) None receipt_path (fresh_agent, []))
     = (fresh_agent\<lparr>model := secondary_model\<rparr>,
        [Submitted primary_model, Submitted secondary_model]) \<and>
   submissions (drop 2 (snd (analyze_calls
       [(failing not_found_error quota_error, None, receipt_path)]
       (fresh_agent\<lparr>model := secondary_model\<rparr>,
        [Submitted primary_model, Submitted secondary_model]))))
     = [secondary_model, secondary_model]"
proof -
  let ?E = "failing not_found_error quota_error"
  let ?s1 = "(fresh_agent\<lparr>model := secondary_model\<rparr>,
        [Submitted primary_model, Submitted secondary_model])"
  have h1: "emit_opt None started_call [] = ([], None)"
    by (simp add: emit_opt_def)
  have h2: "open_image ?E receipt_path = None"
    by (simp add: failing_def)
  have h3: "generate ?E 0 (model fresh_agent) = Inl not_found_error"
    by (simp add: failing_def)
  have h4: "is_not_found (unicode ?E) not_found_error"
    by (simp add: failing_def not_found_is_not_found)
  have h5: "fst (analyze ?E None receipt_path (fresh_agent, [])) = ?s1"
    by (simp add: fst_analyze failing_not_found_try)
  have try2: "analyze_try ?E None receipt_path ?s1 =
      ((fresh_agent\<lparr>model := secondary_model\<rparr>,
        [Submitted primary_model, Submitted secondary_model,
         Submitted secondary_model, Submitted secondary_model]), Inl unavailable_error)"
    by (simp add: analyze_try_def emit_opt_def failing_def call_model_def fresh_agent_def
        not_found_is_not_found)
  have h6: "analyze_calls [(?E, None, receipt_path)] ?s1 =
      (fresh_agent\<lparr>model := secondary_model\<rparr>,
        [Submitted primary_model, Submitted secondary_model,
         Submitted secondary_model, Submitted secondary_model])"
    by (simp add: fst_analyze try2)
  from fallback_is_permanent [OF h1 h2 h3 h4 h5 h6] h5 h6
  show ?thesis by simp
qed

subsection \<open>The fields of the returned record\<close>

lemma map_of_dict_set: "map_of (dict_set d k v) = (map_of d)(k \<mapsto> v)"
  by (induction d k v rule: dict_set.induct) auto

lemma dict_has_set: "dict_has (dict_set d k v) k' = (k' = k \<or> dict_has d k')"
  by (simp add: dict_has_def map_of_dict_set)

lemma dict_get_str_has: "dict_get d k (VInt 0) = VStr x \<Longrightarrow> dict_has d k"
  by (auto simp: dict_get_def dict_has_def split: option.splits)

lemma sanitize_amount_dict:
  "sanitize_amount u parsed = Inr d' \<Longrightarrow> \<exists>d. parsed = VDict d"
  by (cases parsed) (simp_all add: sanitize_amount_def)

lemma sanitize_amount_keys:
  assumes "sanitize_amount u (VDict d) = Inr d'"
  shows "dict_has d' k = dict_has d k"
proof (cases "dict_get d k_total_amount (VInt 0)")
  case (VStr amount)
  from dict_get_str_has [OF VStr] have "dict_has d k_total_amount" .
  with assms VStr show ?thesis
    by (auto simp: sanitize_amount_def dict_has_set split: if_splits sum.splits)
qed (use assms in \<open>simp_all add: sanitize_amount_def\<close>)


lemma analyze_try_success:
  assumes "analyze_try E progress image_path s = (s', Inr r)"
  shows "\<exists>raw d d'. (\<exists>n m. generate E n m = Inr (Response (Inr raw))) \<and>
           loads E (clean_response (unicode E) raw) = Inr (VDict d) \<and>
           sanitize_amount (unicode E) (VDict d) = Inr d' \<and>
           r = ensure_confidence d'"
proof -
  obtain a tr where s: "s = (a, tr)" by (cases s)
  obtain tr1 r1 where e1: "emit_opt progress started_call tr = (tr1, r1)"
    by (cases "emit_opt progress started_call tr")
  from assms s e1 have r1: "r1 = None" and op: "open_image E image_path = None"
    by (auto simp: analyze_try_def split: option.splits)
  obtain a2 tr2 cr where cm: "call_model E (a, tr1) = ((a2, tr2), cr)"
    by (cases "call_model E (a, tr1)") auto
  from assms s e1 r1 op cm obtain raw where cr: "cr = Inr (Response (Inr raw))"
    by (auto simp: analyze_try_def split: sum.splits response.splits)
  from cm cr have gen: "\<exists>n m. generate E n m = Inr (Response (Inr raw))"
    by (auto simp: call_model_def Let_def split: sum.splits if_splits)
  from assms s e1 r1 op cm cr obtain parsed where
    ld: "loads E (clean_response (unicode E) raw) = Inr parsed"
    by (auto simp: analyze_try_def split: sum.splits)
  from assms s e1 r1 op cm cr ld obtain d' where
    sa: "sanitize_amount (unicode E) parsed = Inr d'"
    by (auto simp: analyze_try_def split: sum.splits)
  from sanitize_amount_dict [OF sa] obtain d where d: "parsed = VDict d" by blast
  from assms s e1 r1 op cm cr ld sa have "r = ensure_confidence d'"
    by (auto simp: analyze_try_def Let_def split: prod.splits option.splits)
  with gen ld sa d show ?thesis by blast
qed








subsection \<open>Cleaning the response text\<close>

lemma strip_noop:
  assumes "s \<noteq> []" and "\<not> isspace u (hd s)" and "\<not> isspace u (last s)"
  shows "strip u s = s"
proof -
  from assms(1,2) have l: "lstrip u s = s"
    by (cases s) (simp_all add: lstrip_def)
  from assms(1) obtain ys y where "s = ys @ [y]"
    by (cases s rule: rev_cases) auto
  with assms(3) have "rstrip u s = s"
    by (simp add: rstrip_def)
  with l show ?thesis by (simp add: strip_def)
qed

lemma strip_ends:
  "strip u s = [] \<or> (\<not> isspace u (hd (strip u s)) \<and> \<not> isspace u (last (strip u s)))"
proof (cases "strip u s = []")
  case False
  let ?l = "lstrip u s"
  have r: "strip u s = rev (dropWhile (isspace u) (rev ?l))"
    by (simp add: strip_def rstrip_def)
  from False r have ne: "dropWhile (isspace u) (rev ?l) \<noteq> []" by simp
  then have "\<not> isspace u (hd (dropWhile (isspace u) (rev ?l)))"
    by (rule hd_dropWhile)
  with ne r have last: "\<not> isspace u (last (strip u s))"
    by (simp add: last_rev)
  from False have lne: "?l \<noteq> []" by (auto simp: strip_def rstrip_def)
  then have h: "\<not> isspace u (hd ?l)"
    unfolding lstrip_def by (rule hd_dropWhile)
  have "\<exists>zs. ?l = strip u s @ zs"
  proof -
    have "rev ?l = takeWhile (isspace u) (rev ?l) @ dropWhile (isspace u) (rev ?l)" by simp
    then have "?l = rev (dropWhile (isspace u) (rev ?l)) @ rev (takeWhile (isspace u) (rev ?l))"
      by (metis rev_append rev_rev_ident)
    with r show ?thesis by metis
  qed
  then obtain zs where "?l = strip u s @ zs" ..
  with False have "hd ?l = hd (strip u s)" by (metis hd_append2)
  with h last show ?thesis by simp
qed simp

lemma strip_Nil: "strip u [] = []"
  by (simp add: strip_def lstrip_def rstrip_def)

lemma strip_idem: "strip u (strip u s) = strip u s"
proof (cases "strip u s = []")
  case True
  then show ?thesis by (simp add: strip_Nil)
next
  case False
  with strip_ends [of u s] show ?thesis by (simp add: strip_noop)
qed

lemma clean_response_plain:
  assumes "startswith (strip u t) (ascii ''{'')" and "endswith (strip u t) (ascii ''}'')"
  shows "clean_response u t = strip u t"
proof -
  from assms(1) have a: "\<not> startswith (strip u t) (ascii ''```json'')"
    by (cases "strip u t") (auto simp: startswith_def ascii_def)
  from assms(2) have "strip u t \<noteq> [] \<and> last (strip u t) = 125"
    by (cases "strip u t" rule: rev_cases) (auto simp: endswith_def ascii_def)
  then have b: "\<not> endswith (strip u t) (ascii ''```'')"
    by (cases "strip u t" rule: rev_cases) (auto simp: endswith_def ascii_def)
  from a b show ?thesis
    by (simp add: clean_response_def strip_idem)
qed

lemma clean_response_fenced:
  assumes "strip u t = ascii ''```json'' @ body @ ascii ''```''"
  shows "clean_response u t = strip u body"
proof -
  have a: "startswith (ascii ''```json'' @ body @ ascii ''```'') (ascii ''```json'')"
    by (simp add: startswith_def ascii_def)
  have d: "drop 7 (ascii ''```json'' @ body @ ascii ''```'') = body @ ascii ''```''"
    by (simp add: ascii_def)
  have b: "endswith (body @ ascii ''```'') (ascii ''```'')"
    by (simp add: endswith_def ascii_def)
  have c: "take (length (body @ ascii ''```'') - 3) (body @ ascii ''```'') = body"
    by (simp add: ascii_def)
  show ?thesis
    unfolding clean_response_def Let_def assms using a b c d by simp
qed

subsection \<open>The round trip of a complete answer\<close>

lemma float_of_digits_nonneg:
  "float_of_digits u s = Inr f \<Longrightarrow> \<exists>q. 0 \<le> q \<and> f = Fin q"
  by (auto simp: float_of_digits_def Let_def split: if_splits option.splits)

lemma amount_1500:
  "float_of_digits u (clean_amount u (ascii ''1,500'')) = Inr (Fin 1500)"
  by (simp add: clean_amount_def isdigit_def ascii_def float_of_digits_def decimal_value_def)

lemma amount_naira:
  "u_digit u 8358 = NotDigit \<Longrightarrow>
   float_of_digits u (clean_amount u (naira @ ascii ''1,500.75'')) = Inr (Fin (6003 / 4))"
  by (simp add: clean_amount_def isdigit_def ascii_def float_of_digits_def decimal_value_def
      naira_def)

lemma confidence_not_amount: "k_confidence \<noteq> k_total_amount"
  by (simp add: key_defs ascii_def)

lemma ensure_confidence_present: "dict_has d k_confidence \<Longrightarrow> ensure_confidence d = d"
  by (simp add: ensure_confidence_def)

lemma ensure_confidence_amount:
  "map_of (ensure_confidence d) k_total_amount = map_of d k_total_amount"
  using confidence_not_amount by (simp add: ensure_confidence_def map_of_dict_set)

lemma has_required_confidence: "has_required d \<Longrightarrow> dict_has d k_confidence"
  by (simp add: has_required_def required_fields_def)

text \<open>The body, once the model has answered with a text that parses.\<close>

lemma analyze_try_answered:
  assumes "emit_opt progress started_call tr = (tr1, None)"
    and "open_image E image_path = None"
    and "call_model E (a, tr1) = ((a2, tr2), Inr (Response (Inr raw_text)))"
    and "loads E (clean_response (unicode E) raw_text) = Inr parsed"
  shows "snd (analyze_try E progress image_path (a, tr)) =
           (case sanitize_amount (unicode E) parsed of
              Inl e \<Rightarrow> Inl e
            | Inr d \<Rightarrow>
                (case snd (emit_opt progress (complete_call (ensure_confidence d)) tr2) of
                   Some e \<Rightarrow> Inl e
                 | None \<Rightarrow> Inr (ensure_confidence d)))"
  using assms
  by (simp add: analyze_try_def Let_def split: sum.splits prod.splits option.splits)

lemma snd_analyze:
  "snd (analyze E progress image_path s) =
     Inr (case snd (analyze_try E progress image_path s) of
            Inl e \<Rightarrow> default_result | Inr data \<Rightarrow> data)"
  unfolding analyze_def by (cases "analyze_try E progress image_path s") (auto split: sum.splits)

lemma analyze_answered:
  assumes "emit_opt progress started_call tr = (tr1, None)"
    and "open_image E image_path = None"
    and "call_model E (a, tr1) = ((a2, tr2), Inr (Response (Inr raw_text)))"
    and "(startswith (strip (unicode E) raw_text) (ascii ''{'') \<and>
          endswith (strip (unicode E) raw_text) (ascii ''}'') \<and>
          json = strip (unicode E) raw_text) \<or>
         (\<exists>body. strip (unicode E) raw_text = ascii ''```json'' @ body @ ascii ''```'' \<and>
            json = strip (unicode E) body)"
    and "loads E json = Inr (VDict d)"
    and "has_required d"
    and "\<forall>c t. snd (emit_opt progress c t) = None"
  shows "snd (analyze E progress image_path (a, tr)) =
           Inr (case dict_get d k_total_amount (VInt 0) of
                  VStr amount \<Rightarrow>
                    (if clean_amount (unicode E) amount = []
                     then dict_set d k_total_amount (VFloat (Fin 0))
                     else (case float_of_digits (unicode E) (clean_amount (unicode E) amount) of
                             Inr f \<Rightarrow> dict_set d k_total_amount (VFloat f)
                           | Inl e \<Rightarrow> default_result))
                | _ \<Rightarrow> d)"
proof -
  let ?u = "unicode E"
  from assms(4) have cl: "clean_response ?u raw_text = json"
    by (auto simp: clean_response_plain clean_response_fenced)
  have keep: "sanitize_amount ?u (VDict d) = Inr d' \<Longrightarrow> ensure_confidence d' = d'" for d'
    using sanitize_amount_keys [of ?u d d' k_confidence] has_required_confidence [OF assms(6)]
    by (simp add: ensure_confidence_present)
  from analyze_try_answered [OF assms(1) assms(2) assms(3)] cl assms(5) assms(7)
  have body: "snd (analyze_try E progress image_path (a, tr)) =
           (case sanitize_amount ?u (VDict d) of
              Inl e \<Rightarrow> Inl e | Inr d' \<Rightarrow> Inr (ensure_confidence d'))"
    by (simp split: sum.splits)
  have "snd (analyze E progress image_path (a, tr)) =
           Inr (case sanitize_amount ?u (VDict d) of
              Inl e \<Rightarrow> default_result | Inr d' \<Rightarrow> d')"
    using keep by (simp add: snd_analyze body split: sum.splits)
  also have "(case sanitize_amount ?u (VDict d) of
              Inl e \<Rightarrow> default_result | Inr d' \<Rightarrow> d') =
          (case dict_get d k_total_amount (VInt 0) of
                  VStr amount \<Rightarrow>
                    (if clean_amount ?u amount = []
                     then dict_set d k_total_amount (VFloat (Fin 0))
                     else (case float_of_digits ?u (clean_amount ?u amount) of
                             Inr f \<Rightarrow> dict_set d k_total_amount (VFloat f)
                           | Inl e \<Rightarrow> default_result))
                | _ \<Rightarrow> d)"
    by (simp add: sanitize_amount_def split: pyval.splits sum.splits)
  finally show ?thesis .
qed


text \<open>
  C3, as the code has it. Let the image open, no progress emission raise, and the model
  (the first one, or the second after a fallback) answer with a text that, stripped, is
  either a JSON object text
  (from \<open>{\<close> to \<open>}\<close>) or such a text inside a fence opened by \<open>```json\<close> and closed
  by \<open>```\<close>; let the object hold all eight fields. Then \<open>analyze\<close> returns the parsed
  object with every field as parsed, except that a \<open>total_amount\<close> that is a string is
  replaced: by 0.0 when nothing is left once every character other than a digit or a
  full stop is removed, and by the float the remainder denotes when it is a decimal
  numeral. When the remainder is no numeral the default record is returned instead.
  So \<open>1,500\<close> gives 1500.0 and the naira sign before \<open>1,500.75\<close> gives 1500.75.
\<close>

theorem round_trip:
  assumes "emit_opt progress started_call tr = (tr1, None)"
    and "open_image E image_path = None"
    and "call_model E (a, tr1) = ((a2, tr2), Inr (Response (Inr raw_text)))"
    and "(startswith (strip (unicode E) raw_text) (ascii ''{'') \<and>
          endswith (strip (unicode E) raw_text) (ascii ''}'') \<and>
          json = strip (unicode E) raw_text) \<or>
         (\<exists>body. strip (unicode E) raw_text = ascii ''```json'' @ body @ ascii ''```'' \<and>
            json = strip (unicode E) body)"
    and "loads E json = Inr (VDict d)"
    and "has_required d"
    and "\<forall>c t. snd (emit_opt progress c t) = None"
  shows "snd (analyze E progress image_path (a, tr)) =
           Inr (case dict_get d k_total_amount (VInt 0) of
                  VStr amount \<Rightarrow>
                    (if clean_amount (unicode E) amount = []
                     then dict_set d k_total_amount (VFloat (Fin 0))
                     else (case float_of_digits (unicode E) (clean_amount (unicode E) amount) of
                             Inr f \<Rightarrow> dict_set d k_total_amount (VFloat f)
                           | Inl e \<Rightarrow> default_result))
                | _ \<Rightarrow> d) \<and>
         float_of_digits (unicode E) (clean_amount (unicode E) (ascii ''1,500'')) = Inr (Fin 1500) \<and>
         (u_digit (unicode E) 8358 = NotDigit \<longrightarrow>
          float_of_digits (unicode E) (clean_amount (unicode E) (naira @ ascii ''1,500.75''))
            = Inr (Fin (6003 / 4)))"
  using analyze_answered [OF assms] by (simp add: amount_1500 amount_naira)

lemma receipt_has_required: "has_required (receipt_fields amount)"
  by (simp add: has_required_def required_fields_def receipt_fields_def dict_has_def
      key_defs ascii_def)

lemma receipt_amount: "dict_get (receipt_fields amount) k_total_amount (VInt 0) = VStr amount"
  by (simp add: receipt_fields_def dict_get_def key_defs ascii_def)

lemma receipt_json_ends:
  "receipt_json amount \<noteq> [] \<and> hd (receipt_json amount) = 123 \<and>
   last (receipt_json amount) = 125"
  by (simp add: receipt_json_def ascii_def)

lemma strip_receipt_json: "strip u (receipt_json amount) = receipt_json amount"
  using receipt_json_ends [of amount] by (simp add: strip_noop isspace_def)

lemma strip_lines: 
  assumes "s \<noteq> []" "hd s = 123" "last s = 125"
  shows "strip u ([10] @ s @ [10]) = s"
proof -
  have sp: "isspace u 10" by (simp add: isspace_def)
  from assms have e: "\<not> isspace u (hd s)" "\<not> isspace u (last s)"
    by (simp_all add: isspace_def)
  from assms(1) obtain c cs where s: "s = c # cs" by (cases s) auto
  from assms(1) obtain ys y where s': "s = ys @ [y]" by (cases s rule: rev_cases) auto
  from e s have l: "lstrip u ([10] @ s @ [10]) = s @ [10]"
    by (simp add: lstrip_def sp)
  from e s' have "rstrip u (s @ [10]) = s"
    by (simp add: rstrip_def sp)
  with l show ?thesis by (simp add: strip_def)
qed

lemma strip_fenced: "strip u (fenced body) = ascii ''```json'' @ body @ ascii ''```''"
proof -
  have "fenced body \<noteq> []" "hd (fenced body) = 96" "last (fenced body) = 96"
    by (simp_all add: fenced_def ascii_def)
  then have "strip u (fenced body) = fenced body"
    by (simp add: strip_noop isspace_def)
  then show ?thesis by (simp add: fenced_def)
qed

lemma emit_opt_quiet: "snd (emit_opt (Some quiet) c t) = None"
  by (simp add: emit_opt_def quiet_def)

lemma emit_opt_none: "snd (emit_opt None c t) = None"
  by (simp add: emit_opt_def)

lemma unicode_answering: "unicode (answering reply body parsed) = example_unicode"
  by (simp add: answering_def)

lemma naira_not_digit: "u_digit example_unicode 8358 = NotDigit"
  by (simp add: example_unicode_def)

lemma receipt_startswith: "startswith (receipt_json amount) (ascii ''{'')"
  by (simp add: startswith_def receipt_json_def ascii_def)

lemma receipt_endswith: "endswith (receipt_json amount) (ascii ''}'')"
  by (simp add: endswith_def receipt_json_def ascii_def)

theorem round_trip_witness:
  "snd (analyze
     (answering (fenced ([10] @ receipt_json (naira @ ascii ''1,500.75'') @ [10]))
        (receipt_json (naira @ ascii ''1,500.75''))
        (VDict (receipt_fields (naira @ ascii ''1,500.75''))))
     (Some quiet) receipt_path (fresh_agent, []))
   = Inr (dict_set (receipt_fields (naira @ ascii ''1,500.75'')) k_total_amount
            (VFloat (Fin (6003 / 4))))"
proof -
  let ?amt = "naira @ ascii ''1,500.75''"
  let ?E = "answering (fenced ([10] @ receipt_json ?amt @ [10])) (receipt_json ?amt)
              (VDict (receipt_fields ?amt))"
  have h1: "emit_opt (Some quiet) started_call [] = ([Emitted started_call], None)"
    by (simp add: emit_opt_def quiet_def)
  have h2: "open_image ?E receipt_path = None" by (simp add: answering_def)
  have "generate ?E 0 (model fresh_agent)
              = Inr (Response (Inr (fenced ([10] @ receipt_json ?amt @ [10]))))"
    by (simp add: answering_def)
  then have h3: "call_model ?E (fresh_agent, [Emitted started_call]) =
      ((fresh_agent, [Emitted started_call] @ [Submitted (model fresh_agent)]),
       Inr (Response (Inr (fenced ([10] @ receipt_json ?amt @ [10])))))"
    by (rule call_model_primary_ok)
  have h4: "(startswith (strip (unicode ?E) (fenced ([10] @ receipt_json ?amt @ [10]))) (ascii ''{'') \<and>
          endswith (strip (unicode ?E) (fenced ([10] @ receipt_json ?amt @ [10]))) (ascii ''}'') \<and>
          receipt_json ?amt = strip (unicode ?E) (fenced ([10] @ receipt_json ?amt @ [10]))) \<or>
         (\<exists>body. strip (unicode ?E) (fenced ([10] @ receipt_json ?amt @ [10]))
                    = ascii ''```json'' @ body @ ascii ''```'' \<and>
            receipt_json ?amt = strip (unicode ?E) body)"
  proof -
    have "strip (unicode ?E) ([10] @ receipt_json ?amt @ [10]) = receipt_json ?amt"
      using receipt_json_ends [of ?amt] by (intro strip_lines) simp_all
    then show ?thesis
      by (intro disjI2 exI [of _ "[10] @ receipt_json ?amt @ [10]"]) (simp only: strip_fenced)
  qed
  have h5: "loads ?E (receipt_json ?amt) = Inr (VDict (receipt_fields ?amt))"
    by (simp add: answering_def)
  have h7: "\<forall>c t. snd (emit_opt (Some quiet) c t) = None"
    by (simp add: emit_opt_quiet)
  have ne: "clean_amount example_unicode ?amt \<noteq> []"
    by (simp add: clean_amount_def isdigit_def ascii_def naira_def example_unicode_def)
  from round_trip [OF h1 h2 h3 h4 h5 receipt_has_required h7]
  show ?thesis
    by (simp add: unicode_answering receipt_amount ne amount_naira [OF naira_not_digit])
qed

lemma clean_123: "clean_amount u (ascii ''1.2.3'') = ascii ''1.2.3''"
  by (simp add: clean_amount_def isdigit_def ascii_def)

lemma float_123: "float_of_digits u (ascii ''1.2.3'') = Inl (float_error (ascii ''1.2.3''))"
  by (simp add: float_of_digits_def ascii_def decimal_value_def)

text \<open>
  The claim as stated fails where the remainder is no numeral: with the amount
  \<open>1.2.3\<close> the record returned is the default one, whose merchant is not the parsed one.
\<close>

theorem round_trip_counterexample:
  "snd (analyze
     (answering (receipt_json (ascii ''1.2.3'')) (receipt_json (ascii ''1.2.3''))
        (VDict (receipt_fields (ascii ''1.2.3''))))
     None receipt_path (fresh_agent, []))
   = Inr default_result \<and>
   dict_get default_result k_merchant_name VNone = VStr (ascii ''Unknown Merchant'') \<and>
   dict_get (receipt_fields (ascii ''1.2.3'')) k_merchant_name VNone = VStr (ascii ''Acme Store'')"
proof -
  let ?amt = "ascii ''1.2.3''"
  let ?E = "answering (receipt_json ?amt) (receipt_json ?amt) (VDict (receipt_fields ?amt))"
  have h1: "emit_opt None started_call [] = ([], None)"
    by (simp add: emit_opt_def)
  have h2: "open_image ?E receipt_path = None" by (simp add: answering_def)
  have "generate ?E 0 (model fresh_agent) = Inr (Response (Inr (receipt_json ?amt)))"
    by (simp add: answering_def)
  then have h3: "call_model ?E (fresh_agent, []) =
      ((fresh_agent, [] @ [Submitted (model fresh_agent)]),
       Inr (Response (Inr (receipt_json ?amt))))"
    by (rule call_model_primary_ok)
  have h4: "(startswith (strip (unicode ?E) (receipt_json ?amt)) (ascii ''{'') \<and>
          endswith (strip (unicode ?E) (receipt_json ?amt)) (ascii ''}'') \<and>
          receipt_json ?amt = strip (unicode ?E) (receipt_json ?amt)) \<or>
         (\<exists>body. strip (unicode ?E) (receipt_json ?amt)
                    = ascii ''```json'' @ body @ ascii ''```'' \<and>
            receipt_json ?amt = strip (unicode ?E) body)"
    by (simp add: strip_receipt_json receipt_startswith receipt_endswith)
  have h5: "loads ?E (receipt_json ?amt) = Inr (VDict (receipt_fields ?amt))"
    by (simp add: answering_def)
  have h7: "\<forall>c t. snd (emit_opt None c t) = None"
    by (simp add: emit_opt_none)
  have ne: "ascii ''1.2.3'' \<noteq> []" by (simp add: ascii_def)
  have "dict_get (receipt_fields ?amt) k_merchant_name VNone = VStr (ascii ''Acme Store'')"
    by (simp add: receipt_fields_def dict_get_def)
  with analyze_answered [OF h1 h2 h3 h4 h5 receipt_has_required h7]
  show ?thesis
    by (simp add: unicode_answering receipt_amount clean_123 ne float_123 default_merchant)
qed

subsection \<open>The sign of \<open>total_amount\<close>\<close>

lemma bare_fence_kept:
  "clean_response u (ascii ''```'' @ [10] @ ascii ''{}'' @ [10] @ ascii ''```'')
     = ascii ''```'' @ [10] @ ascii ''{}''"
  by (simp add: clean_response_def strip_def lstrip_def rstrip_def isspace_def
      startswith_def endswith_def ascii_def)

lemma sanitize_amount_value:
  assumes "sanitize_amount u (VDict d) = Inr d'"
  shows "case dict_get d k_total_amount (VInt 0) of
           VStr amount \<Rightarrow> (\<exists>q. 0 \<le> q \<and> map_of d' k_total_amount = Some (VFloat (Fin q)))
         | _ \<Rightarrow> d' = d"
proof (cases "dict_get d k_total_amount (VInt 0)")
  case (VStr amount)
  show ?thesis
  proof (cases "clean_amount u amount = []")
    case True
    with assms VStr have "d' = dict_set d k_total_amount (VFloat (Fin 0))"
      by (simp add: sanitize_amount_def)
    then have "0 \<le> (0::rat) \<and> map_of d' k_total_amount = Some (VFloat (Fin 0))"
      by (simp add: map_of_dict_set)
    with VStr show ?thesis by auto
  next
    case False
    with assms VStr obtain f where f: "float_of_digits u (clean_amount u amount) = Inr f"
      and d': "d' = dict_set d k_total_amount (VFloat f)"
      by (auto simp: sanitize_amount_def split: sum.splits)
    from float_of_digits_nonneg [OF f] obtain q where "0 \<le> q" "f = Fin q" by blast
    with d' have "0 \<le> q \<and> map_of d' k_total_amount = Some (VFloat (Fin q))"
      by (simp add: map_of_dict_set)
    with VStr show ?thesis by auto
  qed
qed (use assms in \<open>simp_all add: sanitize_amount_def\<close>)

lemma default_amount: "dict_get default_result k_total_amount VNone = VFloat (Fin 0)"
  by (simp add: default_result_def dict_get_def key_defs ascii_def)

lemma amount_minus: "float_of_digits u (clean_amount u (ascii ''-5'')) = Inr (Fin 5)"
  by (simp add: clean_amount_def isdigit_def ascii_def float_of_digits_def decimal_value_def)

text \<open>
  C5, as the code has it. When the body fails, the record is the default one, whose
  \<open>total_amount\<close> is 0.0. When it succeeds on a parsed object: a \<open>total_amount\<close> that
  arrived as a string is returned as a float that is not negative (a minus sign is
  removed with every other character that is no digit or full stop, so \<open>-5\<close> gives
  5.0); any other \<open>total_amount\<close>, a negative number included, is returned as it
  arrived, and an absent one stays absent.
\<close>

theorem total_amount_sanitized:
  "(case snd (analyze_try E progress image_path s) of
      Inl e \<Rightarrow>
        snd (analyze E progress image_path s) = Inr default_result \<and>
        dict_get default_result k_total_amount VNone = VFloat (Fin 0)
    | Inr r \<Rightarrow>
        snd (analyze E progress image_path s) = Inr r \<and>
        (\<exists>raw d. (\<exists>n m. generate E n m = Inr (Response (Inr raw))) \<and>
           loads E (clean_response (unicode E) raw) = Inr (VDict d) \<and>
           (case dict_get d k_total_amount (VInt 0) of
              VStr amount \<Rightarrow>
                (\<exists>q. 0 \<le> q \<and> map_of r k_total_amount = Some (VFloat (Fin q)))
            | _ \<Rightarrow> map_of r k_total_amount = map_of d k_total_amount))) \<and>
   float_of_digits (unicode E) (clean_amount (unicode E) (ascii ''-5'')) = Inr (Fin 5)"
proof -
  obtain s' res where at: "analyze_try E progress image_path s = (s', res)"
    by (cases "analyze_try E progress image_path s")
  have "case res of
      Inl e \<Rightarrow>
        snd (analyze E progress image_path s) = Inr default_result \<and>
        dict_get default_result k_total_amount VNone = VFloat (Fin 0)
    | Inr r \<Rightarrow>
        snd (analyze E progress image_path s) = Inr r \<and>
        (\<exists>raw d. (\<exists>n m. generate E n m = Inr (Response (Inr raw))) \<and>
           loads E (clean_response (unicode E) raw) = Inr (VDict d) \<and>
           (case dict_get d k_total_amount (VInt 0) of
              VStr amount \<Rightarrow>
                (\<exists>q. 0 \<le> q \<and> map_of r k_total_amount = Some (VFloat (Fin q)))
            | _ \<Rightarrow> map_of r k_total_amount = map_of d k_total_amount))"
  proof (cases res)
    case (Inl e)
    with at show ?thesis by (simp add: snd_analyze default_amount)
  next
    case (Inr r)
    from analyze_try_success [OF at [unfolded Inr]] obtain raw d d' where
      g: "\<exists>n m. generate E n m = Inr (Response (Inr raw))"
      and l: "loads E (clean_response (unicode E) raw) = Inr (VDict d)"
      and sa: "sanitize_amount (unicode E) (VDict d) = Inr d'"
      and r: "r = ensure_confidence d'"
      by blast
    from sanitize_amount_value [OF sa]
    have "case dict_get d k_total_amount (VInt 0) of
              VStr amount \<Rightarrow>
                (\<exists>q. 0 \<le> q \<and> map_of r k_total_amount = Some (VFloat (Fin q)))
            | _ \<Rightarrow> map_of r k_total_amount = map_of d k_total_amount"
      by (cases "dict_get d k_total_amount (VInt 0)") (simp_all add: r ensure_confidence_amount)
    with g l have "\<exists>raw d. (\<exists>n m. generate E n m = Inr (Response (Inr raw))) \<and>
           loads E (clean_response (unicode E) raw) = Inr (VDict d) \<and>
           (case dict_get d k_total_amount (VInt 0) of
              VStr amount \<Rightarrow>
                (\<exists>q. 0 \<le> q \<and> map_of r k_total_amount = Some (VFloat (Fin q)))
            | _ \<Rightarrow> map_of r k_total_amount = map_of d k_total_amount)"
      by blast
    with at Inr show ?thesis by (simp add: snd_analyze)
  qed
  with at show ?thesis by (simp add: amount_minus)
qed

lemma clean_negative: "clean_response example_unicode negative_json = negative_json"
proof -
  have "negative_json \<noteq> []" "hd negative_json = 123" "last negative_json = 125"
    by (simp_all add: negative_json_def ascii_def)
  then have s: "strip example_unicode negative_json = negative_json"
    by (simp add: strip_noop isspace_def)
  have "startswith negative_json (ascii ''{'')" "endswith negative_json (ascii ''}'')"
    by (simp_all add: startswith_def endswith_def negative_json_def ascii_def)
  with s clean_response_plain [of example_unicode negative_json] show ?thesis by simp
qed

lemma negative_try:
  "analyze_try (answering negative_json negative_json (VDict negative_fields)) None
     receipt_path (fresh_agent, []) =
   ((fresh_agent, [Submitted primary_model]),
    Inr [(k_total_amount, VInt (- 5)), (k_confidence, VInt 85)])"
  using confidence_not_amount
  by (simp add: analyze_try_def emit_opt_def answering_def call_model_def fresh_agent_def
      clean_negative sanitize_amount_def negative_fields_def dict_get_def
      ensure_confidence_def dict_has_def)

text \<open>
  The claim as stated fails for a number: the answer \<open>{"total_amount": -5}\<close> comes back
  with \<open>total_amount\<close> equal to -5.
\<close>

theorem total_amount_counterexample:
  "snd (analyze (answering negative_json negative_json (VDict negative_fields)) None
     receipt_path (fresh_agent, []))
   = Inr [(k_total_amount, VInt (- 5)), (k_confidence, VInt 85)] \<and>
   dict_get [(k_total_amount, VInt (- 5)), (k_confidence, VInt 85)] k_total_amount VNone
   = VInt (- 5) \<and> (- 5 :: int) < 0"
  by (simp add: analyze_Inr [OF negative_try] dict_get_def)

theorem total_amount_sanitized_witness:
  "snd (analyze (answering negative_json negative_json (VDict negative_fields)) None
     receipt_path (fresh_agent, []))
   = Inr [(k_total_amount, VInt (- 5)), (k_confidence, VInt 85)] \<and>
   float_of_digits example_unicode (clean_amount example_unicode (ascii ''-5'')) = Inr (Fin 5)"
proof -
  from total_amount_sanitized
    [of "answering negative_json negative_json (VDict negative_fields)" None receipt_path
        "(fresh_agent, [])"]
  show ?thesis by (simp add: negative_try unicode_answering)
qed

subsection \<open>The detail fields of a progress update\<close>












text \<open>
  C6 at \<open>{"scores": [numpy.float64("nan")]}\<close>. The encoder of the standard library
  treats an instance of \<open>numpy.float64\<close> as a \<open>float\<close> and never hands it to \<open>default\<close>:
  the field stored is the text \<open>[NaN]\<close>, which is no JSON. The same holds for an
  infinity and for the floats of an array, which \<open>tolist()\<close> turns into built-in
  floats; a not-a-number of another floating type does become 0.0.
\<close>

theorem nan_float64_written_as_nan:
  "fst (emit E agent stage message (VInt p) nan_details updates) =
     updates @ [base_fields E agent stage message p @
                [(ascii ''progress_detail_scores'', JsonText (TArray [TNaN]))]] \<and>
   \<not> valid_json (TArray [TNaN]) \<and>
   dumps (VList [NpFloat64 PosInf]) = Inr (TArray [TInfinity]) \<and>
   dumps (VList [NpArray [VFloat NaN]]) = Inr (TArray [TArray [TNaN]]) \<and>
   dumps (VList [NpFloating NaN]) = Inr (TArray [TFloat 0])"
proof -
  have bu: "build_update E agent stage message (VInt p) nan_details =
      Inr (base_fields E agent stage message p @
                [(ascii ''progress_detail_scores'', JsonText (TArray [TNaN]))])"
    by (simp add: build_update_def nan_details_def base_fields_def detail_key_def
        detail_field_def ascii_def)
  have "fst (emit E agent stage message (VInt p) nan_details updates) =
     updates @ [base_fields E agent stage message p @
                [(ascii ''progress_detail_scores'', JsonText (TArray [TNaN]))]]"
    by (simp add: emit_def emit_try_def bu split: option.splits)
  then show ?thesis by simp
qed

subsection \<open>Construction of the agent\<close>

text \<open>
  C9, as the code has it. Construction fails at once with the \<open>ValueError\<close>
  \<open>GEMINI_API_KEY is required\<close> when the credential is missing or empty, and succeeds
  for every other string: nothing else about the credential is checked.
\<close>

theorem construction_needs_key:
  "(api_key = None \<or> api_key = Some [] \<longrightarrow>
      init api_key = Inl (PyError ValueError (ascii ''GEMINI_API_KEY is required''))) \<and>
   (\<forall>key. api_key = Some key \<and> key \<noteq> [] \<longrightarrow>
      init api_key = Inr \<lparr>model_name = primary_model, model = primary_model\<rparr>)"
  by (auto simp: init_def)

theorem construction_needs_key_witness:
  "init None = Inl (PyError ValueError (ascii ''GEMINI_API_KEY is required'')) \<and>
   init (Some []) = Inl (PyError ValueError (ascii ''GEMINI_API_KEY is required'')) \<and>
   init (Some (ascii ''AIzaSyExampleKey0123456789''))
     = Inr \<lparr>model_name = primary_model, model = primary_model\<rparr>"
proof -
  have ne: "ascii ''AIzaSyExampleKey0123456789'' \<noteq> []" by (simp add: ascii_def)
  from construction_needs_key [of None] construction_needs_key [of "Some []"]
    construction_needs_key [of "Some (ascii ''AIzaSyExampleKey0123456789'')"] ne
  show ?thesis by simp
qed

text \<open>
  The claim as stated fails for a credential that is malformed but not empty: a single
  space, or \<open>not a key\<close>, constructs the agent.
\<close>

theorem construction_counterexample:
  "init (Some (ascii '' '')) = Inr \<lparr>model_name = primary_model, model = primary_model\<rparr> \<and>
   init (Some (ascii ''not a key''))
     = Inr \<lparr>model_name = primary_model, model = primary_model\<rparr>"
  by (simp add: init_def ascii_def)

end
